theory Spec2Isabelle
  imports Complex_Main "HOL-Library.Multiset" "HOL-Library.Option_ord"
    "HOL-Library.Product_Lexorder" "HOL-Library.List_Lexorder" "HOL-Library.Char_ord"
begin

section \<open>Data model\<close>

text \<open>
  The notebook works on one pandas DataFrame. A numeric cell is a float or NaN; NaN is
  \<open>None\<close> and a defined value is a real number (rounding is not modelled). A row carries the
  region key \<open>kingdom\<close>, the composed \<open>datetime\<close> (\<open>None\<close> is NaT, a defined date is its
  position on the time line), the flag \<open>is_test\<close>, the two coordinates, and every other
  numeric column by name in \<open>cells\<close>. A DataFrame is the list of its rows in index order.
\<close>

type_synonym val = "real option"

record row =
  kingdom :: string
  datetime :: "int option"
  is_test :: bool
  latitude :: val
  longitude :: val
  cells :: "string \<Rightarrow> val"

definition LAGS :: "nat list" where
  "LAGS = [1, 3, 7, 14, 21, 30, 60]"

definition ROLLING_WINDOWS :: "nat list" where
  "ROLLING_WINDOWS = [3, 7, 14, 30, 60]"

section \<open>Temperature conversion\<close>

definition kelvin_to_celsius :: "real \<Rightarrow> real" where
  "kelvin_to_celsius temp_k = temp_k - 273.15"

definition temp_cols :: "string list" where
  "temp_cols = [''Avg_Temperature'', ''Avg_Feels_Like_Temperature'']"

text \<open>\<open>mask = (df[col] > 70) & (~df[col].isnull())\<close>; a comparison with NaN is false.\<close>

definition temp_mask :: "val \<Rightarrow> bool" where
  "temp_mask v = ((case v of None \<Rightarrow> False | Some x \<Rightarrow> 70 < x) \<and> v \<noteq> None)"

text \<open>\<open>df.loc[mask, col] = df.loc[mask, col].apply(kelvin_to_celsius)\<close> for one column.\<close>

definition convert_column :: "string \<Rightarrow> row list \<Rightarrow> row list" where
  "convert_column col df =
     map (\<lambda>r. if temp_mask (cells r col)
               then r\<lparr>cells := (cells r)(col := map_option kelvin_to_celsius (cells r col))\<rparr>
               else r) df"

definition convert_temperatures :: "row list \<Rightarrow> row list" where
  "convert_temperatures df = fold convert_column temp_cols df"

section \<open>Location mapping\<close>

text \<open>
  \<open>GroupBy.first()\<close> of pandas gives, for each column on its own, the first entry of the
  group that is not null, and NaN when the group has none.
\<close>

definition first_valid :: "val list \<Rightarrow> val" where
  "first_valid vs = (case filter (\<lambda>v. v \<noteq> None) vs of [] \<Rightarrow> None | v # _ \<Rightarrow> v)"

text \<open>
  \<open>df[df['is_test'] == 0].groupby('kingdom')[['latitude', 'longitude']].first().reset_index()\<close>:
  one entry for each kingdom of the historical rows, in key order.
\<close>

definition coord_map :: "row list \<Rightarrow> (string \<times> val \<times> val) list" where
  "coord_map df =
     (let train = filter (\<lambda>r. \<not> is_test r) df
      in map (\<lambda>g. (g, first_valid (map latitude (filter (\<lambda>r. kingdom r = g) train)),
                       first_valid (map longitude (filter (\<lambda>r. kingdom r = g) train))))
             (sort (remdups (map kingdom train))))"

text \<open>
  \<open>pd.merge(df.drop(['latitude', 'longitude'], axis=1), coord_map, on='kingdom', how='left')\<close>:
  the keys of \<open>coord_map\<close> are unique, so every left row is kept once, in its place, with the
  coordinates of its kingdom, or NaN where the kingdom has no entry.
\<close>

definition merge_left :: "row list \<Rightarrow> (string \<times> val \<times> val) list \<Rightarrow> row list" where
  "merge_left df cm =
     map (\<lambda>r. case map_of cm (kingdom r) of
                 None \<Rightarrow> r\<lparr>latitude := None, longitude := None\<rparr>
               | Some (la, lo) \<Rightarrow> r\<lparr>latitude := la, longitude := lo\<rparr>) df"

definition location_mapping :: "row list \<Rightarrow> row list" where
  "location_mapping df = merge_left df (coord_map df)"

text \<open>The first historical row of a region, as the specification words it.\<close>

definition first_historical_row :: "string \<Rightarrow> row list \<Rightarrow> row option" where
  "first_historical_row g df = find (\<lambda>r. \<not> is_test r \<and> kingdom r = g) df"

section \<open>Feature engineering\<close>

text \<open>
  \<open>df.sort_values(by=['kingdom', 'datetime'], na_position='first').reset_index(drop=True)\<close>.
  With several sort columns pandas sorts lexicographically and keeps rows with equal keys in
  their order; \<open>na_position='first'\<close> puts NaT before every date, which is the order of
  \<open>int option\<close> with \<open>None\<close> least.
\<close>

definition sort_values :: "row list \<Rightarrow> row list" where
  "sort_values df = sort_key (\<lambda>r. (kingdom r, datetime r)) df"

text \<open>The order of two rows under the sort keys, written out.\<close>

definition key_le :: "row \<Rightarrow> row \<Rightarrow> bool" where
  "key_le a b =
     (kingdom a < kingdom b \<or>
      (kingdom a = kingdom b \<and>
       (case (datetime a, datetime b) of
          (None, _) \<Rightarrow> True
        | (Some x, None) \<Rightarrow> False
        | (Some x, Some y) \<Rightarrow> x \<le> y)))"

text \<open>
  \<open>df.groupby('kingdom')[col].shift(n)\<close>: the rows are visited in index order and \<open>hist g\<close>
  holds the values of group \<open>g\<close> seen so far; a row receives the value \<open>n\<close> places back in
  its own group, or NaN when the group has no such row yet.
\<close>

fun group_shift :: "nat \<Rightarrow> (string \<Rightarrow> val list) \<Rightarrow> (string \<times> val) list \<Rightarrow> val list" where
  "group_shift n hist [] = []"
| "group_shift n hist ((g, v) # rs) =
     (let h = hist g @ [v]
      in (if n < length h then h ! (length h - 1 - n) else None)
         # group_shift n (hist(g := h)) rs)"

definition groupby_shift :: "row list \<Rightarrow> string \<Rightarrow> nat \<Rightarrow> val list" where
  "groupby_shift df col n = group_shift n (\<lambda>_. []) (map (\<lambda>r. (kingdom r, cells r col)) df)"

text \<open>The column \<open>f'{col}_lag_{lag}'\<close> of \<open>create_features\<close>, aligned with the sorted frame.\<close>

definition lag_feature :: "row list \<Rightarrow> string \<Rightarrow> nat \<Rightarrow> val list" where
  "lag_feature df col lag = groupby_shift (sort_values df) col lag"

text \<open>
  \<open>Series.rolling(window=w, min_periods=m)\<close>: the window at index \<open>i\<close> is the last \<open>w\<close>
  entries up to and including \<open>i\<close> (fewer at the start of the series); a statistic is taken
  over the entries of the window that are not NaN and is NaN when there are fewer than \<open>m\<close>.
\<close>

definition rolling_window :: "val list \<Rightarrow> nat \<Rightarrow> nat \<Rightarrow> val list" where
  "rolling_window xs w i = drop (Suc i - w) (take (Suc i) xs)"

definition observations :: "val list \<Rightarrow> real list" where
  "observations ws = concat (map (\<lambda>v. case v of None \<Rightarrow> [] | Some x \<Rightarrow> [x]) ws)"

definition min_periods :: "nat \<Rightarrow> nat" where
  "min_periods window = max 1 (window div 2)"

datatype stat = Mean | Std | Median | Min_stat | Max_stat

text \<open>
  The statistics are taken over the reals: the rounding and the overflow of the running
  float sums of pandas are not modelled.
\<close>

definition roll_mean :: "nat \<Rightarrow> real list \<Rightarrow> val" where
  "roll_mean minp obs =
     (if minp \<le> length obs \<and> 0 < length obs then Some (sum_list obs / real (length obs))
      else None)"

text \<open>The sample standard deviation (one degree of freedom removed).\<close>

definition roll_std :: "nat \<Rightarrow> real list \<Rightarrow> val" where
  "roll_std minp obs =
     (if minp \<le> length obs \<and> 1 < length obs
      then (let m = sum_list obs / real (length obs)
            in Some (sqrt (sum_list (map (\<lambda>x. (x - m)\<^sup>2) obs) / (real (length obs) - 1))))
      else None)"

definition roll_median :: "nat \<Rightarrow> real list \<Rightarrow> val" where
  "roll_median minp obs =
     (if minp \<le> length obs \<and> 0 < length obs
      then (let s = sort obs; n = length s
            in Some (if odd n then s ! (n div 2) else (s ! (n div 2 - 1) + s ! (n div 2)) / 2))
      else None)"

definition roll_min :: "nat \<Rightarrow> real list \<Rightarrow> val" where
  "roll_min minp obs =
     (if minp \<le> length obs \<and> 0 < length obs then Some (fold min (tl obs) (hd obs)) else None)"

definition roll_max :: "nat \<Rightarrow> real list \<Rightarrow> val" where
  "roll_max minp obs =
     (if minp \<le> length obs \<and> 0 < length obs then Some (fold max (tl obs) (hd obs)) else None)"

fun roll_stat :: "stat \<Rightarrow> nat \<Rightarrow> real list \<Rightarrow> val" where
  "roll_stat Mean = roll_mean"
| "roll_stat Std = roll_std"
| "roll_stat Median = roll_median"
| "roll_stat Min_stat = roll_min"
| "roll_stat Max_stat = roll_max"

text \<open>
  \<open>shifted.rolling(window=window, min_periods=max(1, window // 2))\<close> followed by one of
  \<open>mean()\<close>, \<open>std()\<close>, \<open>median()\<close>, \<open>min()\<close>, \<open>max()\<close>, on any series.
\<close>

definition rolling :: "stat \<Rightarrow> val list \<Rightarrow> nat \<Rightarrow> val list" where
  "rolling st xs window =
     map (\<lambda>i. roll_stat st (min_periods window) (observations (rolling_window xs window i)))
         [0..<length xs]"

text \<open>
  The column \<open>f'{col}_roll_{window}_{stat}'\<close> of \<open>create_features\<close>. In the notebook
  \<open>shifted = df_col.shift(1)\<close> is an ordinary Series over the whole sorted frame, and
  \<open>rolling\<close> is called on that Series.
\<close>

definition rolling_feature :: "stat \<Rightarrow> row list \<Rightarrow> string \<Rightarrow> nat \<Rightarrow> val list" where
  "rolling_feature st df col window =
     (let shifted = groupby_shift (sort_values df) col 1 in rolling st shifted window)"

text \<open>Subtraction of two Series cells: NaN when either operand is NaN.\<close>

definition nan_sub :: "val \<Rightarrow> val \<Rightarrow> val" where
  "nan_sub a b = (case (a, b) of (Some x, Some y) \<Rightarrow> Some (x - y) | _ \<Rightarrow> None)"

text \<open>The columns \<open>f'{col}_lag_1_diff_7'\<close> and \<open>f'{col}_lag_7_diff_30'\<close>.\<close>

definition lag_1_diff_7 :: "row list \<Rightarrow> string \<Rightarrow> val list" where
  "lag_1_diff_7 df col =
     (let lag1 = lag_feature df col 1; lag7 = lag_feature df col 7
      in map (\<lambda>(a, b). nan_sub a b) (zip lag1 lag7))"

definition lag_7_diff_30 :: "row list \<Rightarrow> string \<Rightarrow> val list" where
  "lag_7_diff_30 df col =
     (let lag7 = lag_feature df col 7; lag30 = lag_feature df col 30
      in map (\<lambda>(a, b). nan_sub a b) (zip lag7 lag30))"

text \<open>The part of a column of the frame that belongs to the rows of one region.\<close>

definition region_column :: "string \<Rightarrow> row list \<Rightarrow> 'a list \<Rightarrow> 'a list" where
  "region_column g df xs = map snd (filter (\<lambda>(r, x). kingdom r = g) (zip df xs))"

text \<open>The series of one base feature in one region, in the canonical order.\<close>

definition region_series :: "string \<Rightarrow> row list \<Rightarrow> string \<Rightarrow> val list" where
  "region_series g df col =
     map (\<lambda>r. cells r col) (filter (\<lambda>r. kingdom r = g) (sort_values df))"

text \<open>
  The rolling statistics as the specification words them: over the 1-step-shifted series
  of the region alone.
\<close>

definition shift1 :: "val list \<Rightarrow> val list" where
  "shift1 xs = (case xs of [] \<Rightarrow> [] | _ # _ \<Rightarrow> None # butlast xs)"

definition spec_region_rolling :: "stat \<Rightarrow> row list \<Rightarrow> string \<Rightarrow> nat \<Rightarrow> string \<Rightarrow> val list" where
  "spec_region_rolling st df col window g = rolling st (shift1 (region_series g df col)) window"

section \<open>Training loop\<close>

text \<open>
  The regressor is an external collaborator: \<open>fit\<close> followed by \<open>predict\<close> is a parameter
  that receives the target name (which selects the hyperparameters), the training matrix,
  the training targets and the test matrix, and returns the predictions or raises.
\<close>

datatype error = RegressorError

type_synonym regressor = "string \<Rightarrow> val list list \<Rightarrow> real list \<Rightarrow> val list list \<Rightarrow> error + real list"

definition select_features :: "string list \<Rightarrow> row list \<Rightarrow> val list list" where
  "select_features features df = map (\<lambda>r. map (cells r) features) df"

text \<open>
  One pass of the loop over \<open>targets_to_predict\<close>. \<open>valid_train_idx\<close> are the rows whose
  target is not NaN; \<open>DataFrame.empty\<close> holds when the frame has no row or no column.
\<close>

definition train_target ::
  "regressor \<Rightarrow> string list \<Rightarrow> row list \<Rightarrow> row list \<Rightarrow> (string \<rightharpoonup> real list) \<Rightarrow> string
     \<Rightarrow> error + (string \<rightharpoonup> real list)" where
  "train_target model features df_train df_test predictions target =
     (let valid_train = filter (\<lambda>r. cells r target \<noteq> None) df_train;
          X_train_target = select_features features valid_train;
          y_train_target = observations (map (\<lambda>r. cells r target) valid_train)
      in if X_train_target = [] \<or> features = []
         then Inr (predictions(target \<mapsto> replicate (length df_test) 0))
         else (case model target X_train_target y_train_target (select_features features df_test) of
                 Inl e \<Rightarrow> Inl e
               | Inr target_preds \<Rightarrow> Inr (predictions(target \<mapsto> target_preds))))"

fun train_all ::
  "regressor \<Rightarrow> string list \<Rightarrow> row list \<Rightarrow> row list \<Rightarrow> (string \<rightharpoonup> real list) \<Rightarrow> string list
     \<Rightarrow> error + (string \<rightharpoonup> real list)" where
  "train_all model features df_train df_test predictions [] = Inr predictions"
| "train_all model features df_train df_test predictions (target # targets) =
     (case train_target model features df_train df_test predictions target of
        Inl e \<Rightarrow> Inl e
      | Inr predictions' \<Rightarrow> train_all model features df_train df_test predictions' targets)"

definition targets_to_predict :: "string list" where
  "targets_to_predict =
     [''Avg_Temperature'', ''Radiation'', ''Rain_Amount'', ''Wind_Speed'',
      ''Wind_Direction_sin'', ''Wind_Direction_cos'']"

section \<open>Wind direction\<close>

text \<open>
  \<open>create_features\<close> stores \<open>np.sin\<close> and \<open>np.cos\<close> of \<open>np.deg2rad\<close> of a defined wind
  direction; the post-processing turns a predicted sine and cosine back into degrees. Both
  are taken over the reals.
\<close>






section \<open>Example frames\<close>

definition obs_row :: "string \<Rightarrow> int \<Rightarrow> val \<Rightarrow> row" where
  "obs_row g d v =
     \<lparr>kingdom = g, datetime = Some d, is_test = False, latitude = None, longitude = None,
      cells = (\<lambda>_. v)\<rparr>"

definition temp_frame :: "row list" where
  "temp_frame =
     [obs_row ''A'' 1 (Some 70), obs_row ''A'' 2 (Some 70.0001),
      obs_row ''A'' 3 (Some 69.9999), obs_row ''A'' 4 None]"

definition delta_frame :: "row list" where
  "delta_frame =
     map (\<lambda>(d, v). obs_row ''A'' d (Some v))
       [(1, 4), (2, 0), (3, 0), (4, 0), (5, 0), (6, 0), (7, 10), (8, 99)]"

definition lag_frame :: "row list" where
  "lag_frame =
     [obs_row ''B'' 1 (Some 10), obs_row ''A'' 2 (Some 2), obs_row ''A'' 1 (Some 1),
      obs_row ''B'' 2 (Some 20), obs_row ''A'' 3 (Some 3)]"

definition lag_frame' :: "row list" where
  "lag_frame' =
     [obs_row ''B'' 1 (Some 10), obs_row ''A'' 2 (Some 2), obs_row ''A'' 1 (Some 1),
      obs_row ''B'' 2 (Some 20), obs_row ''A'' 3 (Some 99)]"

definition leak_frame :: "row list" where
  "leak_frame =
     [obs_row ''A'' 1 (Some 1), obs_row ''A'' 2 (Some 2), obs_row ''A'' 3 (Some 3),
      obs_row ''B'' 1 (Some 10), obs_row ''B'' 2 (Some 20)]"

definition leak_frame_B_only :: "row list" where
  "leak_frame_B_only = [obs_row ''B'' 1 (Some 10), obs_row ''B'' 2 (Some 20)]"

definition geo_row :: "string \<Rightarrow> bool \<Rightarrow> val \<Rightarrow> val \<Rightarrow> row" where
  "geo_row g t la lo =
     \<lparr>kingdom = g, datetime = None, is_test = t, latitude = la, longitude = lo,
      cells = (\<lambda>_. None)\<rparr>"

definition coord_frame :: "row list" where
  "coord_frame =
     [geo_row ''A'' False None (Some 5), geo_row ''A'' False (Some 1) (Some 6),
      geo_row ''A'' True None None, geo_row ''C'' True (Some 9) (Some 9)]"

definition raising_model :: regressor where
  "raising_model target X_train y_train X_test = Inl RegressorError"

definition no_target_train :: "row list" where
  "no_target_train =
     [\<lparr>kingdom = ''A'', datetime = Some 1, is_test = False, latitude = None, longitude = None,
       cells = (\<lambda>c. if c = ''Radiation'' then None else Some 1)\<rparr>,
      \<lparr>kingdom = ''A'', datetime = Some 2, is_test = False, latitude = None, longitude = None,
       cells = (\<lambda>c. if c = ''Radiation'' then None else Some 2)\<rparr>]"

definition three_test_rows :: "row list" where
  "three_test_rows =
     map (\<lambda>d. \<lparr>kingdom = ''A'', datetime = Some d, is_test = True, latitude = None,
               longitude = None, cells = (\<lambda>_. None)\<rparr>) [3, 4, 5]"

section \<open>Temperature conversion: properties\<close>

lemma convert_column_length: "length (convert_column col df) = length df"
  by (simp add: convert_column_def)

lemma convert_column_cell:
  "i < length df \<Longrightarrow>
   cells (convert_column col df ! i) c =
     (if c = col \<and> temp_mask (cells (df ! i) col)
      then map_option kelvin_to_celsius (cells (df ! i) col) else cells (df ! i) c)"
  by (simp add: convert_column_def)

lemma temp_mask_convert:
  "(if temp_mask v then map_option kelvin_to_celsius v else v) =
   (case v of None \<Rightarrow> None | Some x \<Rightarrow> if 70 < x then Some (x - 273.15) else Some x)"
  by (cases v) (simp_all add: temp_mask_def kelvin_to_celsius_def)

text \<open>
  Claim C6. In each temperature column a defined value strictly above 70 is replaced by the
  value minus 273.15; every other value, and every undefined one, is left as it is. The
  frame keeps its rows.
\<close>

theorem kelvin_heuristic:
  assumes "col \<in> set temp_cols" and "i < length df"
  shows "length (convert_temperatures df) = length df \<and>
         cells (convert_temperatures df ! i) col =
           (case cells (df ! i) col of
              None \<Rightarrow> None
            | Some x \<Rightarrow> if 70 < x then Some (x - 273.15) else Some x)"
proof -
  let ?a = "''Avg_Temperature''" and ?b = "''Avg_Feels_Like_Temperature''"
  have unfold: "convert_temperatures df = convert_column ?b (convert_column ?a df)"
    by (simp add: convert_temperatures_def temp_cols_def)
  have len: "length (convert_temperatures df) = length df"
    by (simp add: unfold convert_column_length)
  have i1: "i < length (convert_column ?a df)"
    using assms(2) by (simp add: convert_column_length)
  have ne: "?a \<noteq> ?b" by simp
  from assms(1) have "col = ?a \<or> col = ?b"
    by (simp add: temp_cols_def)
  then have "cells (convert_temperatures df ! i) col =
      (if temp_mask (cells (df ! i) col) then map_option kelvin_to_celsius (cells (df ! i) col)
       else cells (df ! i) col)"
  proof
    assume c: "col = ?a"
    show ?thesis
      unfolding unfold c using ne
      by (simp only: convert_column_cell [OF i1] convert_column_cell [OF assms(2)]) simp
  next
    assume c: "col = ?b"
    show ?thesis
      unfolding unfold c using ne
      by (simp only: convert_column_cell [OF i1] convert_column_cell [OF assms(2)]) simp
  qed
  with len show ?thesis
    by (simp only: temp_mask_convert)
qed

text \<open>
  At the boundary: 70 stays, 70.0001 is converted, 69.9999 stays, NaN stays.
\<close>

theorem kelvin_heuristic_witness:
  "''Avg_Temperature'' \<in> set temp_cols \<and> length temp_frame = 4 \<and>
   map (\<lambda>r. cells r ''Avg_Temperature'') (convert_temperatures temp_frame) =
     [Some 70, Some (70.0001 - 273.15), Some 69.9999, None]"
proof -
  have c: "''Avg_Temperature'' \<in> set temp_cols" by (simp add: temp_cols_def)
  have l: "length temp_frame = 4" by (simp add: temp_frame_def)
  have i: "(0::nat) < length temp_frame" "(1::nat) < length temp_frame" "(2::nat) < length temp_frame" "(3::nat) < length temp_frame"
    by (simp_all add: l)
  have n: "length (convert_temperatures temp_frame) = 4"
    using kelvin_heuristic [OF c i(1)] l by simp
  have v: "cells (convert_temperatures temp_frame ! 0) ''Avg_Temperature'' = Some 70"
     "cells (convert_temperatures temp_frame ! 1) ''Avg_Temperature'' = Some (70.0001 - 273.15)"
     "cells (convert_temperatures temp_frame ! 2) ''Avg_Temperature'' = Some 69.9999"
     "cells (convert_temperatures temp_frame ! 3) ''Avg_Temperature'' = None"
    using kelvin_heuristic [OF c i(1)] kelvin_heuristic [OF c i(2)]
      kelvin_heuristic [OF c i(3)] kelvin_heuristic [OF c i(4)]
    by (simp_all add: temp_frame_def obs_row_def)
  have "map (\<lambda>r. cells r ''Avg_Temperature'') (convert_temperatures temp_frame) =
     [Some 70, Some (70.0001 - 273.15), Some 69.9999, None]"
    by (rule nth_equalityI) (use n v in \<open>auto simp: less_Suc_eq numeral_eq_Suc\<close>)
  with c l show ?thesis by simp
qed


section \<open>Canonical order: properties\<close>

lemma key_le_iff: "key_le a b \<longleftrightarrow> (kingdom a, datetime a) \<le> (kingdom b, datetime b)"
  by (auto simp: key_le_def less_eq_prod_def less_eq_option_def less_option_def
      split: option.splits)

text \<open>
  Claim C8. The sorted frame is ordered by kingdom and then by date, with undefined dates
  before the defined ones of the same kingdom; it has the rows of the input; and rows with
  the same kingdom and the same date (undefined dates included) keep their relative order.
\<close>

theorem canonical_order:
  "sorted_wrt key_le (sort_values df) \<and> mset (sort_values df) = mset df \<and>
   (\<forall>g d. filter (\<lambda>r. kingdom r = g \<and> datetime r = d) (sort_values df) =
          filter (\<lambda>r. kingdom r = g \<and> datetime r = d) df)"
proof (intro conjI allI)
  have "sorted (map (\<lambda>r. (kingdom r, datetime r)) (sort_values df))"
    by (simp add: sort_values_def)
  then show "sorted_wrt key_le (sort_values df)"
    by (simp add: sorted_map key_le_iff [abs_def])
next
  show "mset (sort_values df) = mset df" by (simp add: sort_values_def)
next
  fix g d
  have "filter (\<lambda>r. (kingdom r, datetime r) = (g, d)) (sort_values df) =
        filter (\<lambda>r. (kingdom r, datetime r) = (g, d)) df"
    unfolding sort_values_def by (rule sort_key_stable)
  then show "filter (\<lambda>r. kingdom r = g \<and> datetime r = d) (sort_values df) =
          filter (\<lambda>r. kingdom r = g \<and> datetime r = d) df"
    by simp
qed


section \<open>Lag features: properties\<close>

lemmas frame_defs = obs_row_def lag_feature_def sort_values_def groupby_shift_def
  region_series_def region_column_def

lemma group_shift_length: "length (group_shift n hist rs) = length rs"
  by (induction rs arbitrary: hist) (auto simp: Let_def)

lemma sort_values_length: "length (sort_values df) = length df"
  by (simp add: sort_values_def)

lemma groupby_shift_length: "length (groupby_shift df col n) = length df"
  by (simp add: groupby_shift_def group_shift_length)

lemma lag_feature_length: "length (lag_feature df col n) = length df"
  by (simp add: lag_feature_def groupby_shift_length sort_values_length)

lemma group_shift_region:
  "map snd (filter (\<lambda>(k, x). k = g) (zip (map fst rs) (group_shift n hist rs))) =
   map (\<lambda>i. if n \<le> length (hist g) + i
             then (hist g @ map snd (filter (\<lambda>(k, v). k = g) rs)) ! (length (hist g) + i - n)
             else None)
       [0..<length (filter (\<lambda>(k, v). k = g) rs)]"
proof (induction rs arbitrary: hist)
  case Nil
  then show ?case by simp
next
  case (Cons r rs)
  obtain g' v where r: "r = (g', v)" by (cases r)
  show ?case
  proof (cases "g' = g")
    case False
    have h: "(hist(g' := hist g' @ [v])) g = hist g"
      using False by simp
    have lhs: "map snd (filter (\<lambda>(k, x). k = g)
                 (zip (map fst (r # rs)) (group_shift n hist (r # rs)))) =
               map snd (filter (\<lambda>(k, x). k = g)
                 (zip (map fst rs) (group_shift n (hist(g' := hist g' @ [v])) rs)))"
      using False by (simp add: r Let_def del: fun_upd_apply)
    have rhs: "filter (\<lambda>(k, v). k = g) (r # rs) = filter (\<lambda>(k, v). k = g) rs"
      using False by (simp add: r)
    show ?thesis
      by (simp only: lhs rhs Cons.IH [of "hist(g' := hist g' @ [v])"] h)
  next
    case True
    let ?h = "hist g @ [v]"
    let ?S = "map snd (filter (\<lambda>(k, v). k = g) rs)"
    have app: "?h @ ?S = hist g @ v # ?S" by simp
    have head: "(if n < length ?h then ?h ! (length ?h - 1 - n) else None) =
                (if n \<le> length (hist g) then (hist g @ v # ?S) ! (length (hist g) - n) else None)"
      by (auto simp: nth_append)
    have tail: "map snd (filter (\<lambda>(k, x). k = g)
                  (zip (map fst rs) (group_shift n (hist(g := ?h)) rs))) =
                map (\<lambda>i. if n \<le> length (hist g) + Suc i
                          then (hist g @ v # ?S) ! (length (hist g) + Suc i - n) else None)
                    [0..<length (filter (\<lambda>(k, v). k = g) rs)]"
    proof -
      have ih: "map snd (filter (\<lambda>(k, x). k = g)
                  (zip (map fst rs) (group_shift n (hist(g := ?h)) rs))) =
                map (\<lambda>i. if n \<le> length ?h + i then (?h @ ?S) ! (length ?h + i - n) else None)
                    [0..<length (filter (\<lambda>(k, v). k = g) rs)]"
        using Cons.IH [of "hist(g := ?h)"] by (simp only: fun_upd_same)
      have "map (\<lambda>i. if n \<le> length ?h + i then (?h @ ?S) ! (length ?h + i - n) else None)
                    [0..<length (filter (\<lambda>(k, v). k = g) rs)] =
            map (\<lambda>i. if n \<le> length (hist g) + Suc i
                          then (hist g @ v # ?S) ! (length (hist g) + Suc i - n) else None)
                    [0..<length (filter (\<lambda>(k, v). k = g) rs)]"
        by (simp add: app)
      with ih show ?thesis by (simp only:)
    qed
    have lhs: "map snd (filter (\<lambda>(k, x). k = g)
                 (zip (map fst (r # rs)) (group_shift n hist (r # rs)))) =
               (if n < length ?h then ?h ! (length ?h - 1 - n) else None) #
               map snd (filter (\<lambda>(k, x). k = g)
                 (zip (map fst rs) (group_shift n (hist(g := ?h)) rs)))"
      by (simp add: r True Let_def del: fun_upd_apply)
    have rhs: "filter (\<lambda>(k, v). k = g) (r # rs) = r # filter (\<lambda>(k, v). k = g) rs"
      by (simp add: r True)
    show ?thesis
      unfolding lhs rhs head tail
      by (simp add: r map_upt_Suc del: upt_Suc)
  qed
qed

lemma region_column_keys:
  "region_column g df xs =
   map snd (filter (\<lambda>(k, x). k = g) (zip (map kingdom df) xs))"
  by (simp add: region_column_def zip_map1 filter_map comp_def case_prod_unfold)

lemma filter_keys_cells:
  "map snd (filter (\<lambda>(k, v). k = g) (map (\<lambda>r. (kingdom r, cells r col)) df)) =
   map (\<lambda>r. cells r col) (filter (\<lambda>r. kingdom r = g) df)"
  by (induction df) auto

lemma groupby_shift_region:
  "region_column g df (groupby_shift df col n) =
   map (\<lambda>i. if n \<le> i then map (\<lambda>r. cells r col) (filter (\<lambda>r. kingdom r = g) df) ! (i - n)
             else None)
       [0..<length (filter (\<lambda>r. kingdom r = g) df)]"
proof -
  let ?rs = "map (\<lambda>r. (kingdom r, cells r col)) df"
  have k: "map fst ?rs = map kingdom df" by (simp add: comp_def)
  have l: "length (filter (\<lambda>(k, v). k = g) ?rs) = length (filter (\<lambda>r. kingdom r = g) df)"
    using arg_cong [OF filter_keys_cells [of g col df], of length] by simp
  show ?thesis
    using group_shift_region [of g ?rs n "\<lambda>_. []"]
    by (simp only: region_column_keys groupby_shift_def k l filter_keys_cells) simp
qed

lemma lag_feature_region:
  "i < length (region_series g df col) \<Longrightarrow>
   region_column g (sort_values df) (lag_feature df col k) ! i =
     (if k \<le> i then region_series g df col ! (i - k) else None)"
  by (simp add: lag_feature_def groupby_shift_region region_series_def)

text \<open>
  Claim C1. In the canonical series of a region, the lag-\<open>k\<close> feature at position \<open>i\<close> is the
  base feature at position \<open>i - k\<close> of the same region when \<open>k \<le> i\<close>, and undefined
  otherwise. Any other frame whose series for that region agrees on the positions up to
  \<open>i - k\<close> gives the same lag value at \<open>i\<close>, whatever its later positions and its other
  regions hold.
\<close>

theorem lag_no_leakage:
  assumes "i < length (region_series g df col)"
  shows "region_column g (sort_values df) (lag_feature df col k) ! i =
           (if k \<le> i then region_series g df col ! (i - k) else None) \<and>
         (\<forall>df'. i < length (region_series g df' col) \<and>
                take (Suc i - k) (region_series g df' col) = take (Suc i - k) (region_series g df col)
                \<longrightarrow> region_column g (sort_values df') (lag_feature df' col k) ! i =
                    region_column g (sort_values df) (lag_feature df col k) ! i)"
proof (intro conjI allI impI)
  show "region_column g (sort_values df) (lag_feature df col k) ! i =
           (if k \<le> i then region_series g df col ! (i - k) else None)"
    using assms by (rule lag_feature_region)
next
  fix df'
  assume a: "i < length (region_series g df' col) \<and>
     take (Suc i - k) (region_series g df' col) = take (Suc i - k) (region_series g df col)"
  show "region_column g (sort_values df') (lag_feature df' col k) ! i =
        region_column g (sort_values df) (lag_feature df col k) ! i"
  proof (cases "k \<le> i")
    case False
    then show ?thesis using a assms by (simp add: lag_feature_region)
  next
    case True
    then have "i - k < Suc i - k" by simp
    then have "region_series g df' col ! (i - k) = region_series g df col ! (i - k)"
      using a by (metis nth_take)
    then show ?thesis using a assms True by (simp add: lag_feature_region)
  qed
qed


text \<open>
  Two regions interleaved in the input; the second frame differs from the first only in the
  last value of region A.
\<close>

theorem lag_no_leakage_witness:
  "2 < length (region_series ''A'' lag_frame ''Radiation'') \<and>
   2 < length (region_series ''A'' lag_frame' ''Radiation'') \<and>
   take (Suc 2 - 1) (region_series ''A'' lag_frame' ''Radiation'') =
     take (Suc 2 - 1) (region_series ''A'' lag_frame ''Radiation'') \<and>
   region_column ''A'' (sort_values lag_frame) (lag_feature lag_frame ''Radiation'' 1) ! 2 = Some 2 \<and>
   region_column ''A'' (sort_values lag_frame') (lag_feature lag_frame' ''Radiation'' 1) ! 2 = Some 2 \<and>
   region_column ''A'' (sort_values lag_frame) (lag_feature lag_frame ''Radiation'' 3) ! 2 = None"
proof -
  have s: "region_series ''A'' lag_frame ''Radiation'' = [Some 1, Some 2, Some 3]"
    by (simp add: lag_frame_def frame_defs)
  have s': "region_series ''A'' lag_frame' ''Radiation'' = [Some 1, Some 2, Some 99]"
    by (simp add: lag_frame'_def frame_defs)
  have h: "2 < length (region_series ''A'' lag_frame ''Radiation'')"
    by (simp add: s)
  have h': "2 < length (region_series ''A'' lag_frame' ''Radiation'') \<and>
     take (Suc 2 - 1) (region_series ''A'' lag_frame' ''Radiation'') =
     take (Suc 2 - 1) (region_series ''A'' lag_frame ''Radiation'')"
    by (simp add: s s')
  have a: "region_column ''A'' (sort_values lag_frame) (lag_feature lag_frame ''Radiation'' 1) ! 2
            = Some 2"
    using lag_no_leakage [OF h, of 1] by (simp add: s)
  have b: "region_column ''A'' (sort_values lag_frame') (lag_feature lag_frame' ''Radiation'' 1) ! 2
            = region_column ''A'' (sort_values lag_frame) (lag_feature lag_frame ''Radiation'' 1) ! 2"
    using lag_no_leakage [OF h, of 1] h' by blast
  have c: "region_column ''A'' (sort_values lag_frame) (lag_feature lag_frame ''Radiation'' 3) ! 2
            = None"
    using lag_no_leakage [OF h, of 3] by simp
  from h h' a b c show ?thesis by (simp only:)
qed

section \<open>Lag differences: properties\<close>

lemma nan_sub_cases:
  "nan_sub a b = (case a of None \<Rightarrow> None | Some x \<Rightarrow> (case b of None \<Rightarrow> None | Some y \<Rightarrow> Some (x - y)))"
  by (simp add: nan_sub_def split: option.splits)

text \<open>
  Claim C7. At every row, \<open>lag_1_diff_7\<close> is lag 1 minus lag 7 when both are defined and
  undefined otherwise, and \<open>lag_7_diff_30\<close> is lag 7 minus lag 30 when both are defined and
  undefined otherwise.
\<close>

theorem lag_delta:
  assumes "i < length df"
  shows "lag_1_diff_7 df col ! i =
           (case lag_feature df col 1 ! i of None \<Rightarrow> None
            | Some x \<Rightarrow> (case lag_feature df col 7 ! i of None \<Rightarrow> None | Some y \<Rightarrow> Some (x - y))) \<and>
         lag_7_diff_30 df col ! i =
           (case lag_feature df col 7 ! i of None \<Rightarrow> None
            | Some x \<Rightarrow> (case lag_feature df col 30 ! i of None \<Rightarrow> None | Some y \<Rightarrow> Some (x - y)))"
  using assms
  by (simp add: lag_1_diff_7_def lag_7_diff_30_def lag_feature_length nan_sub_cases)

text \<open>
  The scenario of the specification: lag 1 is 10, lag 7 is 4 and lag 30 is undefined.
\<close>

theorem lag_delta_witness:
  "7 < length delta_frame \<and>
   lag_feature delta_frame ''Rain_Amount'' 1 ! 7 = Some 10 \<and>
   lag_feature delta_frame ''Rain_Amount'' 7 ! 7 = Some 4 \<and>
   lag_feature delta_frame ''Rain_Amount'' 30 ! 7 = None \<and>
   lag_1_diff_7 delta_frame ''Rain_Amount'' ! 7 = Some 6 \<and>
   lag_7_diff_30 delta_frame ''Rain_Amount'' ! 7 = None"
proof -
  have h: "7 < length delta_frame" by (simp add: delta_frame_def)
  have l1: "lag_feature delta_frame ''Rain_Amount'' 1 ! 7 = Some 10"
    by (simp add: delta_frame_def frame_defs)
  have l7: "lag_feature delta_frame ''Rain_Amount'' 7 ! 7 = Some 4"
    by (simp add: delta_frame_def frame_defs)
  have l30: "lag_feature delta_frame ''Rain_Amount'' 30 ! 7 = None"
    by (simp add: delta_frame_def frame_defs)
  show ?thesis
    using lag_delta [OF h, of "''Rain_Amount''"] h l1 l7 l30 by simp
qed

section \<open>Rolling statistics: properties\<close>

lemma rolling_window_nth:
  "i < length xs \<Longrightarrow> rolling_window xs w i = map ((!) xs) [Suc i - w..<Suc i]"
  by (auto simp add: rolling_window_def list_eq_iff_nth_eq simp del: upt_Suc)

lemma rolling_length: "length (rolling st xs w) = length xs"
  by (simp add: rolling_def)

lemma rolling_feature_length: "length (rolling_feature st df col w) = length df"
  by (simp add: rolling_feature_def rolling_length groupby_shift_length sort_values_length)

lemma rolling_feature_nth:
  "i < length df \<Longrightarrow>
   rolling_feature st df col w ! i =
     roll_stat st (min_periods w)
       (observations (rolling_window (groupby_shift (sort_values df) col 1) w i))"
  by (simp add: rolling_feature_def rolling_def groupby_shift_length sort_values_length)

lemma roll_defined:
  "roll_mean m obs \<noteq> None \<longleftrightarrow> m \<le> length obs \<and> 0 < length obs"
  "roll_median m obs \<noteq> None \<longleftrightarrow> m \<le> length obs \<and> 0 < length obs"
  "roll_min m obs \<noteq> None \<longleftrightarrow> m \<le> length obs \<and> 0 < length obs"
  "roll_max m obs \<noteq> None \<longleftrightarrow> m \<le> length obs \<and> 0 < length obs"
  "roll_std m obs \<noteq> None \<longleftrightarrow> m \<le> length obs \<and> 1 < length obs"
  by (simp_all add: roll_mean_def roll_median_def roll_min_def roll_max_def roll_std_def Let_def)

lemma min_periods_pos: "0 < min_periods w"
  by (simp add: min_periods_def)

text \<open>
  On the series that the notebook rolls over, the shifted column of the whole sorted frame,
  the threshold works as configured. For a configured window \<open>w\<close> and a row \<open>i\<close>, let \<open>n\<close>
  be the number of defined entries in the trailing window of that column at \<open>i\<close>. If
  \<open>n < max 1 (w div 2)\<close> every rolling statistic at \<open>i\<close> is undefined. Otherwise mean,
  median, minimum and maximum are defined, also when \<open>n\<close> is exactly the threshold, and the
  standard deviation is defined exactly when \<open>n\<close> is at least 2.
\<close>

lemma frame_window_threshold:
  assumes "w \<in> set ROLLING_WINDOWS" and "i < length df"
  shows "(length (observations (rolling_window (groupby_shift (sort_values df) col 1) w i))
            < max 1 (w div 2) \<longrightarrow>
          (\<forall>st. rolling_feature st df col w ! i = None)) \<and>
         (max 1 (w div 2)
            \<le> length (observations (rolling_window (groupby_shift (sort_values df) col 1) w i)) \<longrightarrow>
          rolling_feature Mean df col w ! i \<noteq> None \<and>
          rolling_feature Median df col w ! i \<noteq> None \<and>
          rolling_feature Min_stat df col w ! i \<noteq> None \<and>
          rolling_feature Max_stat df col w ! i \<noteq> None \<and>
          (rolling_feature Std df col w ! i \<noteq> None \<longleftrightarrow>
           2 \<le> length (observations (rolling_window (groupby_shift (sort_values df) col 1) w i))))"
proof -
  let ?obs = "observations (rolling_window (groupby_shift (sort_values df) col 1) w i)"
  have nth: "\<And>st. rolling_feature st df col w ! i = roll_stat st (min_periods w) ?obs"
    using assms(2) by (rule rolling_feature_nth)
  have low: "\<And>st. length ?obs < min_periods w \<Longrightarrow> roll_stat st (min_periods w) ?obs = None"
  proof -
    fix st assume "length ?obs < min_periods w"
    then show "roll_stat st (min_periods w) ?obs = None"
      using roll_defined [of "min_periods w" ?obs] by (cases st) auto
  qed
  have high: "min_periods w \<le> length ?obs \<Longrightarrow>
      roll_mean (min_periods w) ?obs \<noteq> None \<and> roll_median (min_periods w) ?obs \<noteq> None \<and>
      roll_min (min_periods w) ?obs \<noteq> None \<and> roll_max (min_periods w) ?obs \<noteq> None \<and>
      (roll_std (min_periods w) ?obs \<noteq> None \<longleftrightarrow> 2 \<le> length ?obs)"
    using min_periods_pos [of w] by (simp only: roll_defined) auto
  show ?thesis
    using low high by (simp only: nth roll_stat.simps min_periods_def [symmetric]) blast
qed

text \<open>
  Window 7 has threshold 3: at row 3 the window holds exactly 3 defined entries and the
  statistics are defined, at row 2 it holds 2 and they are not. Window 3 has threshold 1:
  with one defined entry the median is defined and the standard deviation is not.
\<close>

lemma frame_window_threshold_example:
  "7 \<in> set ROLLING_WINDOWS \<and> 3 \<in> set ROLLING_WINDOWS \<and> 3 < length delta_frame \<and>
   max 1 ((7::nat) div 2) = 3 \<and>
   length (observations (rolling_window
     (groupby_shift (sort_values delta_frame) ''Radiation'' 1) 7 3)) = 3 \<and>
   rolling_feature Mean delta_frame ''Radiation'' 7 ! 3 \<noteq> None \<and>
   rolling_feature Std delta_frame ''Radiation'' 7 ! 3 \<noteq> None \<and>
   length (observations (rolling_window
     (groupby_shift (sort_values delta_frame) ''Radiation'' 1) 7 2)) = 2 \<and>
   (\<forall>st. rolling_feature st delta_frame ''Radiation'' 7 ! 2 = None) \<and>
   length (observations (rolling_window
     (groupby_shift (sort_values delta_frame) ''Radiation'' 1) 3 1)) = 1 \<and>
   rolling_feature Median delta_frame ''Radiation'' 3 ! 1 \<noteq> None \<and>
   rolling_feature Std delta_frame ''Radiation'' 3 ! 1 = None"
proof -
  have w: "7 \<in> set ROLLING_WINDOWS" "3 \<in> set ROLLING_WINDOWS"
    by (simp_all add: ROLLING_WINDOWS_def)
  have i: "3 < length delta_frame" "2 < length delta_frame" "1 < length delta_frame"
    by (simp_all add: delta_frame_def)
  have sh: "groupby_shift (sort_values delta_frame) ''Radiation'' 1 =
      [None, Some 4, Some 0, Some 0, Some 0, Some 0, Some 0, Some 10]"
    by (simp add: delta_frame_def frame_defs)
  have n: "length (observations (rolling_window
        (groupby_shift (sort_values delta_frame) ''Radiation'' 1) 7 3)) = 3"
      "length (observations (rolling_window
        (groupby_shift (sort_values delta_frame) ''Radiation'' 1) 7 2)) = 2"
      "length (observations (rolling_window
        (groupby_shift (sort_values delta_frame) ''Radiation'' 1) 3 1)) = 1"
    unfolding sh by (simp_all add: rolling_window_def observations_def)
  have m: "max 1 ((7::nat) div 2) = 3" "max 1 ((3::nat) div 2) = 1" by simp_all
  note a = frame_window_threshold [OF w(1) i(1), of "''Radiation''"]
  note b = frame_window_threshold [OF w(1) i(2), of "''Radiation''"]
  note c = frame_window_threshold [OF w(2) i(3), of "''Radiation''"]
  have a': "rolling_feature Mean delta_frame ''Radiation'' 7 ! 3 \<noteq> None \<and>
            rolling_feature Std delta_frame ''Radiation'' 7 ! 3 \<noteq> None"
    using a unfolding n m by simp
  have b': "\<forall>st. rolling_feature st delta_frame ''Radiation'' 7 ! 2 = None"
    using b unfolding n m by simp
  have c': "rolling_feature Median delta_frame ''Radiation'' 3 ! 1 \<noteq> None \<and>
            rolling_feature Std delta_frame ''Radiation'' 3 ! 1 = None"
    using c unfolding n m by simp
  from w i(1) m(1) n a' b' c' show ?thesis by blast
qed

lemmas roll_defs = rolling_feature_def rolling_def rolling_window_def observations_def
  min_periods_def roll_mean_def roll_std_def roll_median_def roll_min_def roll_max_def
  spec_region_rolling_def shift1_def

text \<open>
  Claim C3. The claim counts the defined entries in the trailing window of the shifted
  series of the row's region and asks for an undefined statistic below the threshold. At
  the first row of region B in the frame with A holding 1, 2, 3 and B holding 10, 20, the
  window of B's own shifted series for window 3 has no defined entry, below the threshold
  1, and the statistic worded over that series is undefined; the notebook's rolling median
  and minimum there are 3/2 and 1, taken from the last values of region A.
\<close>

theorem rolling_threshold_crosses_regions:
  "min_periods 3 = 1 \<and>
   observations (rolling_window (shift1 (region_series ''B'' leak_frame ''Radiation'')) 3 0) = [] \<and>
   spec_region_rolling Median leak_frame ''Radiation'' 3 ''B'' ! 0 = None \<and>
   region_column ''B'' (sort_values leak_frame)
     (rolling_feature Median leak_frame ''Radiation'' 3) ! 0 = Some (3 / 2) \<and>
   region_column ''B'' (sort_values leak_frame)
     (rolling_feature Min_stat leak_frame ''Radiation'' 3) ! 0 = Some 1"
  by (simp add: leak_frame_def frame_defs roll_defs)

text \<open>
  Claim C2. The claim words the rolling statistics over the shifted series of the row's own
  region. The notebook calls \<open>rolling\<close> on the shifted Series of the whole sorted frame, so
  the window of the first rows of a region reaches back into the region sorted before it.
  With region A holding 1, 2, 3 and region B holding 10, 20, the rolling mean of window 3 at
  the two rows of B is 3/2 and 6; over the shifted series of B alone it is undefined and 10.
\<close>

theorem rolling_crosses_regions:
  "region_column ''B'' (sort_values leak_frame) (rolling_feature Mean leak_frame ''Radiation'' 3)
     = [Some (3 / 2), Some 6] \<and>
   spec_region_rolling Mean leak_frame ''Radiation'' 3 ''B'' = [None, Some 10]"
  by (simp add: leak_frame_def frame_defs roll_defs)

text \<open>
  Claim C4. The claim asks that the features of one region do not change when another
  region is removed from the frame. For the rolling statistics of the notebook they do:
  the rolling maximum of window 3 at the two rows of region B is 2 and 10 with region A in
  the frame, and undefined and 10 without it.
\<close>

theorem rolling_region_isolation_fails:
  "leak_frame_B_only = filter (\<lambda>r. kingdom r \<noteq> ''A'') leak_frame \<and>
   region_column ''B'' (sort_values leak_frame) (rolling_feature Max_stat leak_frame ''Radiation'' 3)
     = [Some 2, Some 10] \<and>
   region_column ''B'' (sort_values leak_frame_B_only)
       (rolling_feature Max_stat leak_frame_B_only ''Radiation'' 3)
     = [None, Some 10]"
  by (simp add: leak_frame_def leak_frame_B_only_def frame_defs roll_defs)

text \<open>
  The lag and difference features do stay inside the region: they are the same with and
  without the rows of another region in the frame.
\<close>

lemma region_rows_removed:
  assumes "a \<noteq> b"
  shows "filter (\<lambda>r. kingdom r = a) (sort_values (filter (\<lambda>r. kingdom r \<noteq> b) df)) =
         filter (\<lambda>r. kingdom r = a) (sort_values df)"
proof -
  have "filter (\<lambda>r. kingdom r = a) (filter (\<lambda>r. kingdom r \<noteq> b) df) =
        filter (\<lambda>r. kingdom r = a) df"
    using assms by (auto intro: filter_cong)
  then show ?thesis
    by (simp only: sort_values_def filter_sort)
qed

lemma lag_region_isolation:
  assumes "a \<noteq> b"
  shows "region_column a (sort_values (filter (\<lambda>r. kingdom r \<noteq> b) df))
           (lag_feature (filter (\<lambda>r. kingdom r \<noteq> b) df) col k) =
         region_column a (sort_values df) (lag_feature df col k)"
  by (simp only: lag_feature_def groupby_shift_region region_rows_removed [OF assms])

lemma region_column_map2:
  assumes "length xs = length df" and "length ys = length df"
  shows "region_column g df (map (\<lambda>(x, y). f x y) (zip xs ys)) =
         map (\<lambda>(x, y). f x y) (zip (region_column g df xs) (region_column g df ys))"
  using assms
proof (induction df arbitrary: xs ys)
  case Nil
  then show ?case by (simp add: region_column_def)
next
  case (Cons r df)
  then obtain x xs' y ys' where xs: "xs = x # xs'" and ys: "ys = y # ys'"
    by (metis length_Suc_conv)
  with Cons show ?case
    by (simp add: region_column_def)
qed

lemma delta_region_isolation:
  assumes "a \<noteq> b"
  shows "region_column a (sort_values (filter (\<lambda>r. kingdom r \<noteq> b) df))
           (lag_1_diff_7 (filter (\<lambda>r. kingdom r \<noteq> b) df) col) =
         region_column a (sort_values df) (lag_1_diff_7 df col) \<and>
         region_column a (sort_values (filter (\<lambda>r. kingdom r \<noteq> b) df))
           (lag_7_diff_30 (filter (\<lambda>r. kingdom r \<noteq> b) df) col) =
         region_column a (sort_values df) (lag_7_diff_30 df col)"
  by (simp add: lag_1_diff_7_def lag_7_diff_30_def region_column_map2 lag_feature_length
      sort_values_length lag_region_isolation [OF assms])

text \<open>
  The shifted series is causal, so a rolling statistic at a row depends only on the rows
  before it in the sorted frame and on the kingdom of the row: two frames that agree there
  give the same statistic, whatever value the row itself and the later rows hold.
\<close>

lemma group_shift_take: "take j (group_shift n hist rs) = group_shift n hist (take j rs)"
proof (induction rs arbitrary: hist j)
  case Nil
  then show ?case by simp
next
  case (Cons r rs)
  obtain g v where r: "r = (g, v)" by (cases r)
  show ?case
    by (cases j) (simp_all add: r Let_def Cons.IH del: fun_upd_apply)
qed

lemma group_shift_last_value:
  assumes "0 < n"
  shows "group_shift n hist (rs @ [(g, v)]) = group_shift n hist (rs @ [(g, v')])"
proof (induction rs arbitrary: hist)
  case Nil
  show ?case using assms by (auto simp: Let_def nth_append)
next
  case (Cons r rs)
  obtain g' u where r: "r = (g', u)" by (cases r)
  show ?case
    by (simp add: r Let_def Cons.IH del: fun_upd_apply)
qed

lemma group_shift_causal:
  assumes "0 < n" and "i < length rs" and "i < length rs'"
    and "take i rs = take i rs'" and "fst (rs ! i) = fst (rs' ! i)"
  shows "take (Suc i) (group_shift n hist rs) = take (Suc i) (group_shift n hist rs')"
proof -
  have a: "take (Suc i) rs = take i rs @ [(fst (rs ! i), snd (rs ! i))]"
    using assms(2) by (simp add: take_Suc_conv_app_nth)
  have b: "take (Suc i) rs' = take i rs @ [(fst (rs ! i), snd (rs' ! i))]"
    using assms(3,4,5) by (simp add: take_Suc_conv_app_nth)
  show ?thesis
    by (simp only: group_shift_take a b group_shift_last_value [OF assms(1)])
qed

lemma rolling_own_value:
  assumes "i < length df" and "length df' = length df"
    and "take i (sort_values df') = take i (sort_values df)"
    and "kingdom (sort_values df' ! i) = kingdom (sort_values df ! i)"
  shows "rolling_feature st df' col w ! i = rolling_feature st df col w ! i"
proof -
  let ?rs = "map (\<lambda>r. (kingdom r, cells r col)) (sort_values df)"
  let ?rs' = "map (\<lambda>r. (kingdom r, cells r col)) (sort_values df')"
  have l: "i < length ?rs" "i < length ?rs'"
    using assms(1,2) by (simp_all add: sort_values_length)
  have t: "take i ?rs' = take i ?rs"
    using assms(3) by (simp add: take_map)
  have k: "fst (?rs' ! i) = fst (?rs ! i)"
    using assms(1,2,4) by (simp add: sort_values_length)
  have "take (Suc i) (groupby_shift (sort_values df') col 1) =
        take (Suc i) (groupby_shift (sort_values df) col 1)"
    unfolding groupby_shift_def
    by (rule group_shift_causal [OF _ l(2) l(1) t k]) simp
  then have "rolling_window (groupby_shift (sort_values df') col 1) w i =
             rolling_window (groupby_shift (sort_values df) col 1) w i"
    by (simp only: rolling_window_def)
  then show ?thesis
    using assms(1,2) by (simp add: rolling_feature_nth)
qed


section \<open>Location mapping: properties\<close>

lemma first_valid_Nil: "first_valid [] = None"
  by (simp add: first_valid_def)

lemma coord_map_lookup:
  "map_of (coord_map df) g =
     (if g \<in> kingdom ` {r \<in> set df. \<not> is_test r}
      then Some (first_valid (map latitude (filter (\<lambda>r. \<not> is_test r \<and> kingdom r = g) df)),
                 first_valid (map longitude (filter (\<lambda>r. \<not> is_test r \<and> kingdom r = g) df)))
      else None)"
  by (simp add: coord_map_def Let_def map_of_map_restrict restrict_map_def conj_commute)

lemma no_historical_rows:
  "g \<notin> kingdom ` {r \<in> set df. \<not> is_test r} \<Longrightarrow>
   filter (\<lambda>r. \<not> is_test r \<and> kingdom r = g) df = []"
  by (auto simp: filter_empty_conv)

lemma location_mapping_row:
  "i < length df \<Longrightarrow>
   location_mapping df ! i =
     (df ! i)\<lparr>latitude := first_valid (map latitude
                  (filter (\<lambda>r. \<not> is_test r \<and> kingdom r = kingdom (df ! i)) df)),
              longitude := first_valid (map longitude
                  (filter (\<lambda>r. \<not> is_test r \<and> kingdom r = kingdom (df ! i)) df))\<rparr>"
  by (simp add: location_mapping_def merge_left_def coord_map_lookup no_historical_rows
      first_valid_Nil)

lemmas coord_defs = coord_frame_def geo_row_def first_valid_def first_historical_row_def

text \<open>
  Claim C10, as stated, fails: where the first historical row of a region has no latitude
  and a later one has, the mapped latitude is the later one, not that of the first row.
\<close>

theorem location_mapping_counterexample:
  "map_option latitude (first_historical_row (kingdom (coord_frame ! 2)) coord_frame)
     \<noteq> Some (latitude (location_mapping coord_frame ! 2))"
proof -
  have i: "2 < length coord_frame" by (simp add: coord_frame_def)
  have a: "latitude (location_mapping coord_frame ! 2) = Some 1"
    by (simp add: location_mapping_row [OF i]) (simp add: coord_defs)
  have b: "map_option latitude (first_historical_row (kingdom (coord_frame ! 2)) coord_frame)
     = Some None"
    by (simp add: coord_defs)
  show ?thesis unfolding a b by simp
qed

text \<open>
  Claim C10, amended. After the location mapping the frame has the same rows, and the
  latitude of every row, historical or not, is the first defined latitude among the
  historical rows of its region, undefined when there is none; the longitude likewise, on
  its own. A row of a region without historical rows has undefined coordinates.
\<close>

theorem location_mapping_first_defined:
  assumes "i < length df"
  shows "length (location_mapping df) = length df \<and>
         latitude (location_mapping df ! i) =
           first_valid (map latitude
             (filter (\<lambda>r. \<not> is_test r \<and> kingdom r = kingdom (df ! i)) df)) \<and>
         longitude (location_mapping df ! i) =
           first_valid (map longitude
             (filter (\<lambda>r. \<not> is_test r \<and> kingdom r = kingdom (df ! i)) df)) \<and>
         ((\<forall>r \<in> set df. \<not> is_test r \<longrightarrow> kingdom r \<noteq> kingdom (df ! i)) \<longrightarrow>
          latitude (location_mapping df ! i) = None \<and>
          longitude (location_mapping df ! i) = None)"
proof -
  have len: "length (location_mapping df) = length df"
    by (simp add: location_mapping_def merge_left_def)
  have none: "(\<forall>r \<in> set df. \<not> is_test r \<longrightarrow> kingdom r \<noteq> kingdom (df ! i)) \<Longrightarrow>
      filter (\<lambda>r. \<not> is_test r \<and> kingdom r = kingdom (df ! i)) df = []"
    by (auto simp: filter_empty_conv)
  show ?thesis
    using len none by (auto simp: location_mapping_row [OF assms] first_valid_Nil)
qed

theorem location_mapping_first_defined_witness:
  "2 < length coord_frame \<and> 3 < length coord_frame \<and>
   latitude (location_mapping coord_frame ! 2) = Some 1 \<and>
   longitude (location_mapping coord_frame ! 2) = Some 5 \<and>
   latitude (location_mapping coord_frame ! 0) = Some 1 \<and>
   filter (\<lambda>r. \<not> is_test r \<and> kingdom r = kingdom (coord_frame ! 3)) coord_frame = [] \<and>
   latitude (location_mapping coord_frame ! 3) = None \<and>
   longitude (location_mapping coord_frame ! 3) = None"
proof -
  have i: "2 < length coord_frame" "3 < length coord_frame" "0 < length coord_frame"
    by (simp_all add: coord_frame_def)
  have h: "\<forall>r \<in> set coord_frame. \<not> is_test r \<longrightarrow> kingdom r \<noteq> kingdom (coord_frame ! 3)"
    by (simp add: coord_defs)
  have a: "latitude (location_mapping coord_frame ! 2) = Some 1 \<and>
           longitude (location_mapping coord_frame ! 2) = Some 5"
    using location_mapping_first_defined [OF i(1)] by (simp add: coord_defs)
  have b: "latitude (location_mapping coord_frame ! 0) = Some 1"
    using location_mapping_first_defined [OF i(3)] by (simp add: coord_defs)
  have c: "latitude (location_mapping coord_frame ! 3) = None \<and>
           longitude (location_mapping coord_frame ! 3) = None"
    using location_mapping_first_defined [OF i(2)] h by blast
  have d: "filter (\<lambda>r. \<not> is_test r \<and> kingdom r = kingdom (coord_frame ! 3)) coord_frame = []"
    by (simp add: coord_defs)
  from i(1,2) d a b c show ?thesis by blast
qed


section \<open>Training loop: properties\<close>

lemma train_target_empty:
  assumes "\<forall>r \<in> set df_train. cells r target = None"
  shows "train_target model features df_train df_test predictions target =
         Inr (predictions(target \<mapsto> replicate (length df_test) 0))"
proof -
  have "filter (\<lambda>r. cells r target \<noteq> None) df_train = []"
    using assms by (simp add: filter_empty_conv)
  then show ?thesis
    by (simp add: train_target_def select_features_def)
qed

lemma train_target_other:
  assumes "train_target model features df_train df_test predictions t = Inr predictions'"
    and "t \<noteq> target"
  shows "predictions' target = predictions target"
  using assms
  by (auto simp: train_target_def Let_def split: if_splits sum.splits)

lemma train_all_keeps_default:
  assumes "\<forall>r \<in> set df_train. cells r target = None"
    and "target \<in> set targets \<or> predictions target = Some (replicate (length df_test) 0)"
    and "train_all model features df_train df_test predictions targets = Inr predictions'"
  shows "predictions' target = Some (replicate (length df_test) 0)"
  using assms(2,3)
proof (induction targets arbitrary: predictions)
  case Nil
  then show ?case by simp
next
  case (Cons t targets)
  from Cons.prems(2) obtain p where
    step: "train_target model features df_train df_test predictions t = Inr p" and
    rest: "train_all model features df_train df_test p targets = Inr predictions'"
    by (auto split: sum.splits)
  have "p target = Some (replicate (length df_test) 0) \<or> target \<in> set targets"
  proof (cases "t = target")
    case True
    then show ?thesis
      using step train_target_empty [OF assms(1), of model features df_test predictions]
      by auto
  next
    case False
    then show ?thesis
      using Cons.prems(1) train_target_other [OF step False] by auto
  qed
  then show ?case
    using Cons.IH [OF _ rest] by blast
qed

text \<open>
  Claim C9. When no historical row has a defined value for a target, the pass of the loop
  for that target returns without raising, whatever the regressor would do, and sets the
  predictions of the target to 0 for every test row; a loop over a list of targets that
  holds this target and runs to its end leaves these predictions in place.
\<close>

theorem empty_history_default:
  assumes "\<forall>r \<in> set df_train. cells r target = None"
  shows "train_target model features df_train df_test predictions target =
           Inr (predictions(target \<mapsto> replicate (length df_test) 0)) \<and>
         (\<forall>predictions'. target \<in> set targets \<and>
            train_all model features df_train df_test predictions targets = Inr predictions'
            \<longrightarrow> predictions' target = Some (replicate (length df_test) 0))"
  using train_target_empty [OF assms] train_all_keeps_default [OF assms]
  by blast

text \<open>
  A regressor that always raises is never reached for a target without history, and is
  reached for a target with history.
\<close>

theorem empty_history_default_witness:
  "map (\<lambda>r. cells r ''Radiation'') no_target_train = [None, None] \<and>
   train_target raising_model [''month_sin''] no_target_train three_test_rows Map.empty
     ''Radiation'' = Inr [''Radiation'' \<mapsto> [0, 0, 0]] \<and>
   ''Radiation'' \<in> set [''Radiation''] \<and>
   train_all raising_model [''month_sin''] no_target_train three_test_rows Map.empty
     [''Radiation''] = Inr [''Radiation'' \<mapsto> [0, 0, 0]] \<and>
   [''Radiation'' \<mapsto> [0, 0, 0::real]] ''Radiation'' = Some (replicate (length three_test_rows) 0) \<and>
   train_all raising_model [''month_sin''] no_target_train three_test_rows Map.empty
     [''Radiation'', ''Rain_Amount''] = Inl RegressorError"
proof -
  have h: "\<forall>r \<in> set no_target_train. cells r ''Radiation'' = None"
    by (simp add: no_target_train_def)
  have n: "replicate (length three_test_rows) (0::real) = [0, 0, 0]"
    by (simp add: three_test_rows_def)
  note t = empty_history_default [OF h, of raising_model "[''month_sin'']" three_test_rows
      Map.empty "[''Radiation'']"]
  have a: "train_target raising_model [''month_sin''] no_target_train three_test_rows Map.empty
     ''Radiation'' = Inr [''Radiation'' \<mapsto> [0, 0, 0]]"
    using t by (simp only: n)
  have b: "train_all raising_model [''month_sin''] no_target_train three_test_rows Map.empty
     [''Radiation''] = Inr [''Radiation'' \<mapsto> [0, 0, 0]]"
    by (simp add: a)
  have c: "[''Radiation'' \<mapsto> [0, 0, 0::real]] ''Radiation'' = Some (replicate (length three_test_rows) 0)"
  proof -
    from t have "\<forall>predictions'. ''Radiation'' \<in> set [''Radiation''] \<and>
        train_all raising_model [''month_sin''] no_target_train three_test_rows Map.empty
          [''Radiation''] = Inr predictions'
        \<longrightarrow> predictions' ''Radiation'' = Some (replicate (length three_test_rows) 0)"
      by (rule conjunct2)
    then have "''Radiation'' \<in> set [''Radiation''] \<and>
        train_all raising_model [''month_sin''] no_target_train three_test_rows Map.empty
          [''Radiation''] = Inr [''Radiation'' \<mapsto> [0, 0, 0]]
        \<longrightarrow> [''Radiation'' \<mapsto> [0, 0, 0::real]] ''Radiation'' =
            Some (replicate (length three_test_rows) 0)"
      by (rule spec)
    moreover have "''Radiation'' \<in> set [''Radiation'']" by simp
    ultimately show ?thesis using b by (rule_tac mp) (assumption, rule conjI)
  qed
  have d: "train_all raising_model [''month_sin''] no_target_train three_test_rows Map.empty
     [''Radiation'', ''Rain_Amount''] = Inl RegressorError"
    by (simp add: a)
      (simp add: train_target_def no_target_train_def select_features_def raising_model_def)
  have e: "''Radiation'' \<in> set [''Radiation'']" by simp
  have f: "map (\<lambda>r. cells r ''Radiation'') no_target_train = [None, None]"
    by (simp add: no_target_train_def)
  from f a b c d e show ?thesis by (intro conjI)
qed

section \<open>Wind direction: properties\<close>







end
